theory Spec2Isabelle
  imports Main "HOL-Library.Char_ord" "HOL-Library.List_Lexorder"
begin

section \<open>Command dispatch of aioyoyo (src/aioyoyo/cmdhandler.py)\<close>

subsection \<open>Text and byte strings\<close>

text \<open>
  A Python \<open>str\<close> is a \<open>string\<close>, one \<open>char\<close> per code point (code points below 256),
  so that \<open>length\<close> is Python's \<open>len\<close>. A Python \<open>bytes\<close> value is a \<open>char list\<close> as
  well, one \<open>char\<close> per byte; the two are kept apart by the constructors of \<open>seg\<close> and
  \<open>cmd_input\<close>.
\<close>

text \<open>\<open>s.startswith(p)\<close>.\<close>

definition startswith :: "string \<Rightarrow> string \<Rightarrow> bool" where
  "startswith s p = (take (length p) s = p)"

text \<open>\<open>s.split(sep)\<close> with a separator of one character: never an empty list.\<close>

fun split_on :: "char \<Rightarrow> string \<Rightarrow> string list" where
  "split_on sep [] = [[]]"
| "split_on sep (x # xs) =
     (if x = sep then [] # split_on sep xs
      else (case split_on sep xs of
              [] \<Rightarrow> [[x]]
            | w # ws \<Rightarrow> (x # w) # ws))"

text \<open>\<open>s.split(sep, 1)\<close>: at most one split, at the first separator.\<close>

fun split_once :: "char \<Rightarrow> string \<Rightarrow> string list" where
  "split_once sep [] = [[]]"
| "split_once sep (x # xs) =
     (if x = sep then [[], xs]
      else (case split_once sep xs of
              [] \<Rightarrow> [[x]]
            | w # ws \<Rightarrow> (x # w) # ws))"

text \<open>
  \<open>str.isspace\<close> on one character, for the code points below 256: U+0009 to U+000D,
  U+001C to U+0020, U+0085 and U+00A0.
\<close>

definition isspace :: "char \<Rightarrow> bool" where
  "isspace c = (let n = (of_char c :: nat)
                in (9 \<le> n \<and> n \<le> 13) \<or> (28 \<le> n \<and> n \<le> 32) \<or> n = 133 \<or> n = 160)"

text \<open>\<open>s.strip()\<close>.\<close>

definition strip :: "string \<Rightarrow> string" where
  "strip s = rev (dropWhile isspace (rev (dropWhile isspace s)))"

subsection \<open>Objects\<close>

text \<open>
  A Python value is an object: its identity, whether it is an instance of
  \<open>CommandHandler\<close>, a bound method (\<open>inspect.ismethod\<close>), a function
  (\<open>inspect.isfunction\<close>) or none of these, and the attributes \<open>getattr\<close> finds on
  it. The attribute table is an association list; the first entry of a name is the one
  \<open>getattr\<close> reads. The decorator \<open>protected\<close> stores an attribute named
  \<open>protected\<close> on the function.
\<close>

datatype kind = Handler | Method | Function | Plain

datatype pyval = Obj (ident: string) (kind: kind) (attrs: "(string \<times> pyval) list")

text \<open>\<open>getattr(p, name)\<close>: \<open>None\<close> stands for AttributeError.\<close>

definition py_getattr :: "pyval \<Rightarrow> string \<Rightarrow> pyval option" where
  "py_getattr p name = map_of (attrs p) name"

text \<open>\<open>hasattr(f, name)\<close>.\<close>

definition py_hasattr :: "pyval \<Rightarrow> string \<Rightarrow> bool" where
  "py_hasattr f name = (case py_getattr f name of None \<Rightarrow> False | Some _ \<Rightarrow> True)"

text \<open>The decorator \<open>protected\<close>: sets \<open>func.protected = True\<close> and returns \<open>func\<close>.\<close>

definition protected :: "pyval \<Rightarrow> pyval" where
  "protected func =
     Obj (ident func) (kind func) ((''protected'', Obj ''True'' Plain []) # attrs func)"

subsection \<open>Command paths and errors\<close>

text \<open>
  A segment of a pre-split path is a \<open>str\<close> or a \<open>bytes\<close> value; the argument of
  \<open>get\<close> is a \<open>str\<close>, a \<open>bytes\<close> value or a list of segments.
\<close>

datatype seg = SStr string | SBytes string

datatype cmd_input = InStr string | InBytes string | InList "seg list"

text \<open>
  The exceptions of the dispatcher. \<open>NoSuchCommandError\<close> and \<open>ProtectedCommandError\<close>
  carry the list \<open>get\<close> raises them with, \<open>CommandError\<close> the command \<open>run\<close> was given.
  Python raises \<open>UnboundLocalError\<close>, a subclass of \<open>NameError\<close>, on reading a local
  variable that was never bound. \<open>OtherException\<close> is any other exception derived
  from \<open>Exception\<close>, \<open>BaseOnly\<close> one derived from \<open>BaseException\<close> only.
\<close>

datatype exc =
    NoSuchCommandError "seg list"
  | ProtectedCommandError "seg list"
  | CommandError cmd_input
  | UnboundLocalError
  | UnicodeDecodeError
  | AttributeError
  | IndexError
  | OtherException string
  | BaseOnly string

text \<open>\<open>isinstance(e, NameError)\<close>.\<close>

fun is_NameError :: "exc \<Rightarrow> bool" where
  "is_NameError UnboundLocalError = True"
| "is_NameError _ = False"

text \<open>\<open>isinstance(e, Exception)\<close>, what \<open>except Exception\<close> catches.\<close>

fun is_Exception :: "exc \<Rightarrow> bool" where
  "is_Exception (BaseOnly _) = False"
| "is_Exception _ = True"

text \<open>
  Modelled from the spec: the classes \<open>CommandError\<close>, \<open>NoSuchCommandError\<close> and
  \<open>ProtectedCommandError\<close> are imported from \<open>.oyoyo.cmdhandler\<close>, which is not among
  the sources. The spec has the router's handler for the wrapped error also catch an
  unwrapped ProtectedCommand or NoSuchCommand, and \<open>help\<close> catches both failures of
  \<open>get\<close> with \<open>except CommandError\<close>: both are subclasses of \<open>CommandError\<close>.
\<close>

fun is_CommandError :: "exc \<Rightarrow> bool" where
  "is_CommandError (CommandError _) = True"
| "is_CommandError (NoSuchCommandError _) = True"
| "is_CommandError (ProtectedCommandError _) = True"
| "is_CommandError _ = False"

subsection \<open>\<open>CommandHandler.get\<close>\<close>

text \<open>
  The first lines of \<open>get\<close>: a \<open>bytes\<close> value is split at \<open>b"."\<close>, a \<open>str\<close> at
  \<open>"."\<close>, a list is taken as it is.
\<close>

fun split_input :: "cmd_input \<Rightarrow> seg list" where
  "split_input (InBytes b) = map SBytes (split_on CHR ''.'' b)"
| "split_input (InStr s) = map SStr (split_on CHR ''.'' s)"
| "split_input (InList parts) = parts"

text \<open>
  \<open>if type(cmd) is bytes: cmd = cmd.decode()\<close>. The decoder \<open>bytes.decode\<close> is a
  parameter \<open>dec\<close> of the model, \<open>None\<close> standing for UnicodeDecodeError.
\<close>

fun decode_seg :: "(string \<Rightarrow> string option) \<Rightarrow> seg \<Rightarrow> string option" where
  "decode_seg dec (SBytes b) = dec b"
| "decode_seg dec (SStr s) = Some s"

text \<open>
  \<open>get\<close> and its \<open>while\<close> loop. The loop's state is the original list
  \<open>in_command_parts\<close> (the payload of the errors), the cursor \<open>p\<close>, the local \<open>f\<close>
  (\<open>None\<close> while it is unbound) and the rest of the copy \<open>command_parts\<close>. A
  sub-handler met before the last segment is handed the rest of the list by a call of
  its own \<open>get\<close>.
\<close>

function get :: "(string \<Rightarrow> string option) \<Rightarrow> pyval \<Rightarrow> cmd_input \<Rightarrow> exc + pyval"
  and get_loop :: "(string \<Rightarrow> string option) \<Rightarrow> seg list \<Rightarrow> pyval \<Rightarrow> pyval option
                     \<Rightarrow> seg list \<Rightarrow> exc + pyval"
where
  "get dec self inp =
     get_loop dec (split_input inp) self None (split_input inp)"
| "get_loop dec in_command_parts p f [] =
     (case f of None \<Rightarrow> Inl UnboundLocalError | Some v \<Rightarrow> Inr v)"
| "get_loop dec in_command_parts p f (c # command_parts) =
     (case decode_seg dec c of
        None \<Rightarrow> Inl UnicodeDecodeError
      | Some cmd \<Rightarrow>
          if startswith cmd ''_'' then Inl (ProtectedCommandError in_command_parts)
          else (case py_getattr p cmd of
                  None \<Rightarrow> Inl (NoSuchCommandError in_command_parts)
                | Some f' \<Rightarrow>
                    if py_hasattr f' ''protected''
                    then Inl (ProtectedCommandError in_command_parts)
                    else if kind f' = Handler \<and> command_parts \<noteq> []
                    then get dec f' (InList command_parts)
                    else get_loop dec in_command_parts f' (Some f') command_parts))"
  by pat_completeness auto
termination
  by (relation "measure (\<lambda>x. case x of
          Inl (dec, self, inp) \<Rightarrow> 2 * length (split_input inp) + 1
        | Inr (dec, icp, p, f, parts) \<Rightarrow> 2 * length parts)") auto

subsection \<open>\<open>CommandHandler.run\<close>\<close>

text \<open>
  What a dispatch does to the outside: a call of the fallback \<open>__unhandled__\<close>, a call
  of a resolved command with the handler's client and the arguments, a message sent
  through \<open>helpers.msg\<close>, or whatever else a command body does.
\<close>

datatype event =
    Unhandled cmd_input "string list"
  | Called pyval "string list"
  | Msg string string
  | Effect string

text \<open>
  \<open>__unhandled__\<close> as \<open>CommandHandler\<close> defines it: it writes a debug line and
  returns.
\<close>

definition unhandled :: "cmd_input \<Rightarrow> string list \<Rightarrow> event list" where
  "unhandled cmd args = [Unhandled cmd args]"

text \<open>\<open>isinstance(e, NoSuchCommandError)\<close>, what the first \<open>except\<close> of \<open>run\<close> catches.\<close>

fun is_NoSuchCommandError :: "exc \<Rightarrow> bool" where
  "is_NoSuchCommandError (NoSuchCommandError _) = True"
| "is_NoSuchCommandError _ = False"

text \<open>
  \<open>run\<close>. The command bodies are not part of the dispatcher: \<open>invoke f args\<close> is what
  awaiting \<open>f(self.client, *args)\<close> does, the events of the body and whether it
  raised. Only \<open>NoSuchCommandError\<close> is caught around \<open>get\<close>; around the call,
  \<open>except Exception\<close> replaces the exception by \<open>CommandError(command)\<close>.

  Two of the log lines format a value that is not text, and the formatting can raise:
  \<open>logging.debug('f %s' % f)\<close> between the two \<open>try\<close> blocks (a tuple \<open>f\<close>, or a
  \<open>__str__\<close> that raises), and \<open>logging.error('command raised %s' % e)\<close> in the
  handler, before the \<open>raise\<close>. \<open>log_f f\<close> and \<open>log_e e\<close> are what these raise,
  \<open>None\<close> when they format; an exception of either escapes \<open>run\<close> as it is. The two
  lines at the head of \<open>run\<close> format the command and the arguments, which are text,
  bytes or lists of these here, and cannot raise.
\<close>

definition run :: "(string \<Rightarrow> string option) \<Rightarrow> (pyval \<Rightarrow> exc option) \<Rightarrow> (exc \<Rightarrow> exc option)
    \<Rightarrow> (pyval \<Rightarrow> string list \<Rightarrow> event list \<times> (exc + unit))
    \<Rightarrow> pyval \<Rightarrow> cmd_input \<Rightarrow> string list \<Rightarrow> event list \<times> (exc + unit)" where
  "run dec log_f log_e invoke self command args =
     (case get dec self command of
        Inl (NoSuchCommandError _) \<Rightarrow> (unhandled command args, Inr ())
      | Inl e \<Rightarrow> ([], Inl e)
      | Inr f \<Rightarrow>
          (case log_f f of
             Some e \<Rightarrow> ([], Inl e)
           | None \<Rightarrow>
               (case invoke f args of
                  (evs, Inr _) \<Rightarrow> (Called f args # evs, Inr ())
                | (evs, Inl e) \<Rightarrow>
                    if is_Exception e
                    then (case log_e e of
                            Some e' \<Rightarrow> (Called f args # evs, Inl e')
                          | None \<Rightarrow> (Called f args # evs, Inl (CommandError command)))
                    else (Called f args # evs, Inl e))))"

subsection \<open>\<open>DefaultBotCommandHandler.getVisibleCommands\<close>\<close>

text \<open>
  The predicate \<open>test\<close> of \<open>getVisibleCommands\<close>:
  \<open>isinstance(x, CommandHandler) or inspect.ismethod(x) or inspect.isfunction(x)\<close>.
\<close>

definition test :: "pyval \<Rightarrow> bool" where
  "test x = (kind x = Handler \<or> kind x = Method \<or> kind x = Function)"

text \<open>
  \<open>inspect.getmembers(object, predicate)\<close>: the names of \<open>dir(object)\<close>, which are
  sorted and distinct, each with the value \<open>getattr\<close> reads, kept when the predicate
  holds of the value.
\<close>

definition getmembers :: "pyval \<Rightarrow> (pyval \<Rightarrow> bool) \<Rightarrow> (string \<times> pyval) list" where
  "getmembers object predicate =
     List.map_filter
       (\<lambda>key. case py_getattr object key of
                 None \<Rightarrow> None
               | Some v \<Rightarrow> if predicate v then Some (key, v) else None)
       (sort (remdups (map fst (attrs object))))"

text \<open>
  The attribute names of Python's \<open>None\<close> (CPython 3.6): those of \<open>object\<close> and
  \<open>__bool__\<close>. Every one of them starts with an underscore.
\<close>

definition NoneType_dir :: "string list" where
  "NoneType_dir =
     [''__bool__'', ''__class__'', ''__delattr__'', ''__dir__'', ''__doc__'', ''__eq__'',
      ''__format__'', ''__ge__'', ''__getattribute__'', ''__gt__'', ''__hash__'',
      ''__init__'', ''__init_subclass__'', ''__le__'', ''__lt__'', ''__ne__'', ''__new__'',
      ''__reduce__'', ''__reduce_ex__'', ''__repr__'', ''__setattr__'', ''__sizeof__'',
      ''__str__'', ''__subclasshook__'']"

text \<open>
  \<open>getattr(obj, m)\<close> for the optional argument \<open>obj\<close> of \<open>getVisibleCommands\<close>, whose
  default is Python's \<open>None\<close> (here \<open>None\<close> too). The attributes of Python's \<open>None\<close>
  are opaque values without a \<open>protected\<close> attribute. The result \<open>None\<close> stands for
  AttributeError.
\<close>

fun getattr_obj :: "pyval option \<Rightarrow> string \<Rightarrow> pyval option" where
  "getattr_obj None m = (if m \<in> set NoneType_dir then Some (Obj m Plain []) else None)"
| "getattr_obj (Some obj) m = py_getattr obj m"

text \<open>
  The list comprehension of \<open>getVisibleCommands\<close>, over the members in order:
  \<open>not m.startswith('_') and not hasattr(getattr(obj, m), 'protected')\<close>, where
  \<open>and\<close> does not evaluate its right side for a name starting with an underscore, and
  \<open>getattr\<close> is applied to the argument \<open>obj\<close> itself.
\<close>

fun visible :: "pyval option \<Rightarrow> (string \<times> pyval) list \<Rightarrow> exc + string list" where
  "visible obj [] = Inr []"
| "visible obj ((m, _) # members) =
     (if startswith m ''_'' then visible obj members
      else (case getattr_obj obj m of
              None \<Rightarrow> Inl AttributeError
            | Some v \<Rightarrow>
                (case visible obj members of
                   Inl e \<Rightarrow> Inl e
                 | Inr ms \<Rightarrow> Inr (if py_hasattr v ''protected'' then ms else m # ms))))"

text \<open>
  \<open>getVisibleCommands(self, obj=None)\<close>: the members are those of \<open>obj or self\<close>
  (an object given for \<open>obj\<close> is taken to be truthy).
\<close>

definition getVisibleCommands :: "pyval \<Rightarrow> pyval option \<Rightarrow> exc + string list" where
  "getVisibleCommands self obj =
     visible obj (getmembers (case obj of None \<Rightarrow> self | Some ob \<Rightarrow> ob) test)"

subsection \<open>\<open>BotCommandHandler.tryBotCommand\<close>\<close>

text \<open>
  A \<open>BotCommandHandler\<close> holds its client, of which the router reads the nick, and
  the handler that executes the bot commands.
\<close>

record client =
  nick :: string

record BotCommandHandler =
  client :: client
  command_handler :: pyval

text \<open>
  Modelled from the spec: \<open>helpers.msg\<close> is not among the sources; the spec has it
  send the text to the destination as one message.
\<close>

definition helpers_msg :: "string \<Rightarrow> string \<Rightarrow> event list" where
  "helpers_msg dest text = [Msg dest text]"

text \<open>
  \<open>tryBotCommand\<close>. Two more collaborators are parameters: \<open>parse_nick0 prefix\<close> is
  \<open>parse_nick(prefix)[0]\<close> (\<open>.oyoyo.parse\<close> is not among the sources), and
  \<open>str_of e\<close> is the text \<open>str(e)\<close> of an error. \<open>dec\<close>, \<open>log_f\<close>, \<open>log_e\<close> and
  \<open>invoke\<close> are those of \<open>run\<close>. The first component of the result is what was done,
  the second the value returned or the exception that escapes.
\<close>

definition tryBotCommand :: "(string \<Rightarrow> string option)
    \<Rightarrow> (pyval \<Rightarrow> exc option) \<Rightarrow> (exc \<Rightarrow> exc option)
    \<Rightarrow> (pyval \<Rightarrow> string list \<Rightarrow> event list \<times> (exc + unit))
    \<Rightarrow> (string \<Rightarrow> string) \<Rightarrow> (exc \<Rightarrow> string)
    \<Rightarrow> BotCommandHandler \<Rightarrow> string \<Rightarrow> string \<Rightarrow> string \<Rightarrow> event list \<times> (exc + bool)" where
  "tryBotCommand dec log_f log_e invoke parse_nick0 str_of self prefix dest msg =
     (case (if dest = nick (client self) then Some (parse_nick0 prefix, msg)
            else if startswith msg (nick (client self))
            then Some (dest, drop (length (nick (client self)) + 1) msg)
            else None) of
        None \<Rightarrow> ([], Inr False)
      | Some (dest, msg) \<Rightarrow>
          (case split_once CHR '' '' (strip msg) of
             [] \<Rightarrow> ([], Inl IndexError)
           | command # arg \<Rightarrow>
               (case run dec log_f log_e invoke (command_handler self) (InStr command)
                       (prefix # dest # arg) of
                  (evs, Inl e) \<Rightarrow>
                    if is_CommandError e then (evs @ helpers_msg dest (str_of e), Inr True)
                    else (evs, Inl e)
                | (evs, Inr _) \<Rightarrow> (evs, Inr True))))"

subsection \<open>A command tree\<close>

text \<open>
  A \<open>DefaultBotCommandHandler\<close> with the members it inherits, a sub-handler \<open>admin\<close>
  (a \<open>CommandHandler\<close>) with the command \<open>ban\<close>, a command \<open>boom\<close> and a protected method
  \<open>protected_operation\<close> as in \<open>examples/command_example.py\<close>.
\<close>

definition admin_node :: pyval where
  "admin_node = Obj ''admin'' Handler
     [(''client'', Obj ''client'' Plain []),
      (''__init__'', Obj ''admin.__init__'' Method []),
      (''__unhandled__'', protected (Obj ''admin.__unhandled__'' Method [])),
      (''get'', protected (Obj ''admin.get'' Method [])),
      (''run'', protected (Obj ''admin.run'' Method [])),
      (''ban'', Obj ''admin.ban'' Method [])]"

definition example_root :: pyval where
  "example_root = Obj ''root'' Handler
     [(''client'', Obj ''client'' Plain []),
      (''__init__'', Obj ''__init__'' Method []),
      (''__unhandled__'', protected (Obj ''__unhandled__'' Method [])),
      (''get'', protected (Obj ''get'' Method [])),
      (''run'', protected (Obj ''run'' Method [])),
      (''getVisibleCommands'', protected (Obj ''getVisibleCommands'' Method [])),
      (''help'', Obj ''help'' Method []),
      (''admin'', admin_node),
      (''boom'', Obj ''boom'' Method []),
      (''protected_operation'', protected (Obj ''protected_operation'' Method []))]"

text \<open>
  A decoder for the examples: it agrees with \<open>bytes.decode\<close> on ASCII bytes and
  rejects every other input.
\<close>

definition ascii_decode :: "string \<Rightarrow> string option" where
  "ascii_decode b = (if list_all (\<lambda>c. (of_char c :: nat) < 128) b then Some b else None)"

text \<open>Command bodies for the examples: \<open>boom\<close> raises, every other body returns.\<close>

definition example_invoke :: "pyval \<Rightarrow> string list \<Rightarrow> event list \<times> (exc + unit)" where
  "example_invoke f args =
     (if ident f = ''boom''
      then ([Effect ''boom''], Inl (OtherException ''ValueError''))
      else ([], Inr ()))"

definition example_bot :: BotCommandHandler where
  "example_bot = \<lparr>client = \<lparr>nick = ''bot''\<rparr>, command_handler = example_root\<rparr>"

subsection \<open>The spec's reading of a path\<close>

text \<open>
  The spec's "directly reading the corresponding nested attribute chain": one
  \<open>getattr\<close> per name, from the root.
\<close>

fun attr_chain :: "pyval \<Rightarrow> string list \<Rightarrow> pyval option" where
  "attr_chain p [] = Some p"
| "attr_chain p (n # ns) =
     (case py_getattr p n of None \<Rightarrow> None | Some v \<Rightarrow> attr_chain v ns)"

text \<open>
  The spec's "composed only of non-underscore, non-protected segments reachable from
  the root": no name starts with an underscore, every name is an attribute of the value
  before it, and no value read carries the attribute \<open>protected\<close>.
\<close>

fun open_path :: "pyval \<Rightarrow> string list \<Rightarrow> bool" where
  "open_path p [] = True"
| "open_path p (n # ns) =
     (\<not> startswith n ''_'' \<and>
      (case py_getattr p n of
         None \<Rightarrow> False
       | Some v \<Rightarrow> \<not> py_hasattr v ''protected'' \<and> open_path v ns))"

section \<open>Properties\<close>

lemmas example_defs =
  example_root_def admin_node_def py_getattr_def py_hasattr_def startswith_def protected_def

subsection \<open>Resolution\<close>

lemma split_on_not_Nil: "split_on sep s \<noteq> []"
  by (induction s) (auto split: list.splits)

lemma split_input_text_not_Nil:
  "split_input (InStr s) \<noteq> []" "split_input (InBytes b) \<noteq> []"
  by (simp_all add: split_on_not_Nil)

text \<open>Claim C9: \<open>get\<close> on the empty pre-split list reads the unbound local \<open>f\<close>:
  it raises \<open>UnboundLocalError\<close>, a \<open>NameError\<close>, which is none of the three
  command errors.\<close>

theorem get_empty_list_unbound:
  "get dec self (InList []) = Inl UnboundLocalError
   \<and> is_NameError UnboundLocalError \<and> \<not> is_CommandError UnboundLocalError"
  by simp

text \<open>
  The loop on a path of open segments: whatever the payload \<open>in_command_parts\<close> and
  the local \<open>f\<close> are on entry, it returns the value at the end of the attribute chain.
  The hand-over to a sub-handler restarts the loop on the rest of the path, which the
  induction hypothesis covers.
\<close>

lemma get_loop_open_path:
  "map (decode_seg dec) parts = map Some names \<Longrightarrow> names \<noteq> [] \<Longrightarrow> open_path p names
   \<Longrightarrow> \<exists>v. attr_chain p names = Some v \<and> get_loop dec icp p f parts = Inr v"
proof (induction names arbitrary: parts p icp f)
  case Nil
  then show ?case by simp
next
  case (Cons n ns)
  from Cons.prems(1) obtain c cs where parts: "parts = c # cs"
    and c: "decode_seg dec c = Some n" and cs: "map (decode_seg dec) cs = map Some ns"
    by (cases parts) auto
  from Cons.prems(3) obtain v where n: "\<not> startswith n ''_''"
    and v: "py_getattr p n = Some v" and np: "\<not> py_hasattr v ''protected''"
    and rest: "open_path v ns"
    by (auto split: option.splits)
  show ?case
  proof (cases ns)
    case Nil
    with cs have "cs = []" by simp
    with Nil parts c n v np show ?thesis by simp
  next
    case (Cons m ms)
    then have ne: "ns \<noteq> []" by simp
    with cs have cne: "cs \<noteq> []" by auto
    from Cons.IH [OF cs ne rest]
    have ih: "\<And>icp f. \<exists>w. attr_chain v ns = Some w \<and> get_loop dec icp v f cs = Inr w" .
    from ih [of cs None] ih [of icp "Some v"] parts c n v np cne
    show ?thesis by auto
  qed
qed

text \<open>
  For a command path with at least one segment (a \<open>str\<close> or \<open>bytes\<close> value always
  splits into one or more) whose segments decode to names that do not start with an
  underscore, exist along the chain from the root and are not protected, \<open>get\<close>
  returns the value that reading the nested attribute chain from the root gives.
\<close>

lemma get_reads_attribute_chain:
  assumes "split_input inp \<noteq> []"
    and "map (decode_seg dec) (split_input inp) = map Some names"
    and "open_path self names"
  shows "\<exists>v. attr_chain self names = Some v \<and> get dec self inp = Inr v"
proof -
  from assms(1,2) have "names \<noteq> []" by auto
  from get_loop_open_path [OF assms(2) this assms(3)] show ?thesis by simp
qed

lemma get_reads_attribute_chain_example:
  "attr_chain example_root [''admin'', ''ban''] = Some (Obj ''admin.ban'' Method [])
   \<and> get ascii_decode example_root (InStr ''admin.ban'') = Inr (Obj ''admin.ban'' Method [])"
proof -
  have a: "split_input (InStr ''admin.ban'') \<noteq> []" by simp
  have b: "map (decode_seg ascii_decode) (split_input (InStr ''admin.ban''))
             = map Some [''admin'', ''ban'']"
    by simp
  have c: "open_path example_root [''admin'', ''ban'']" by (simp add: example_defs)
  have d: "attr_chain example_root [''admin'', ''ban''] = Some (Obj ''admin.ban'' Method [])"
    by (simp add: example_defs)
  from get_reads_attribute_chain [OF a b c] d show ?thesis by simp
qed

text \<open>Claim C5 at the pre-split path \<open>[]\<close>: it has no segment, so it is composed
  only of open segments, and reading the attribute chain of no name gives the root
  itself, the cursor the loop starts with; \<open>get\<close> does not return the root, it reads
  the local \<open>f\<close> that no iteration has bound and raises \<open>UnboundLocalError\<close>.\<close>

theorem get_empty_path_not_root:
  "open_path self [] \<and> attr_chain self [] = Some self
   \<and> map (decode_seg dec) (split_input (InList [])) = map Some []
   \<and> get dec self (InList []) \<noteq> Inr self
   \<and> get dec self (InList []) = Inl UnboundLocalError"
  by simp

text \<open>
  The loop on a path with an underscore segment: when the segments before it decode
  and exist along the chain, each step before it either raises
  \<open>ProtectedCommandError\<close> or moves on, and the underscore check of the segment itself
  comes before its lookup.
\<close>

lemma get_loop_underscore:
  "map (decode_seg dec) pre = map Some names \<Longrightarrow> attr_chain p names = Some v
   \<Longrightarrow> decode_seg dec s = Some n \<Longrightarrow> startswith n ''_''
   \<Longrightarrow> \<exists>parts. get_loop dec icp p f (pre @ s # post) = Inl (ProtectedCommandError parts)"
proof (induction names arbitrary: pre p icp f)
  case Nil
  then show ?case by simp
next
  case (Cons m ms)
  from Cons.prems(1) obtain c cs where pre: "pre = c # cs"
    and c: "decode_seg dec c = Some m" and cs: "map (decode_seg dec) cs = map Some ms"
    by (cases pre) auto
  from Cons.prems(2) obtain w where w: "py_getattr p m = Some w"
    and rest: "attr_chain w ms = Some v"
    by (auto split: option.splits)
  from Cons.IH [OF cs rest Cons.prems(3,4)]
  have ih: "\<And>icp f. \<exists>parts. get_loop dec icp w f (cs @ s # post)
              = Inl (ProtectedCommandError parts)" .
  from ih [of "cs @ s # post" None] ih [of icp "Some w"] pre c w
  show ?case by auto
qed

text \<open>Claim C6, as stated, fails: in \<open>missing._secret\<close> a segment starts with an
  underscore, and \<open>get\<close> raises \<open>NoSuchCommandError\<close> at the segment before it.\<close>

theorem get_underscore_after_missing:
  "get ascii_decode example_root (InStr ''missing._secret'')
     = Inl (NoSuchCommandError [SStr ''missing'', SStr ''_secret''])
   \<and> startswith ''_secret'' ''_''"
  by (simp add: example_defs)

text \<open>Claim C6, amended: for a command path in which a segment, once decoded, starts
  with an underscore and every segment before it decodes and names an existing
  attribute along the chain from the root, \<open>get\<close> fails with
  \<open>ProtectedCommandError\<close>, whether or not an attribute of the underscore name exists
  on the cursor.\<close>

theorem get_underscore_segment_protected:
  assumes "split_input inp = pre @ s # post"
    and "map (decode_seg dec) pre = map Some names"
    and "attr_chain self names = Some v"
    and "decode_seg dec s = Some n" and "startswith n ''_''"
  shows "\<exists>parts. get dec self inp = Inl (ProtectedCommandError parts)"
  using get_loop_underscore [OF assms(2-5)] assms(1) by simp

theorem get_underscore_segment_protected_witness:
  "get ascii_decode example_root (InStr ''admin._hidden.x'')
    = Inl (ProtectedCommandError [SStr ''_hidden'', SStr ''x''])
   \<and> py_getattr admin_node ''_hidden'' = None"
proof -
  have a: "split_input (InStr ''admin._hidden.x'')
             = [SStr ''admin''] @ SStr ''_hidden'' # [SStr ''x'']"
    by simp
  have b: "map (decode_seg ascii_decode) [SStr ''admin''] = map Some [''admin'']" by simp
  have c: "attr_chain example_root [''admin''] = Some admin_node" by (simp add: example_defs)
  have d: "decode_seg ascii_decode (SStr ''_hidden'') = Some ''_hidden''" by simp
  have e: "startswith ''_hidden'' ''_''" by (simp add: startswith_def)
  have f: "get ascii_decode example_root (InStr ''admin._hidden.x'')
    = Inl (ProtectedCommandError [SStr ''_hidden'', SStr ''x''])" by (simp add: example_defs)
  from get_underscore_segment_protected [OF a b c d e] f show ?thesis
    by (simp add: example_defs)
qed

text \<open>
  An error raised by the loop of the call the caller made carries the whole path.
\<close>

lemma get_direct_error_reports_full_path:
  "get dec example_root (InStr ''kick.admin'')
     = Inl (NoSuchCommandError [SStr ''kick'', SStr ''admin''])"
  by (simp add: example_defs)

text \<open>
  An error raised after the hand-over to a sub-handler carries the rest of the path
  only: the sub-handler's \<open>get\<close> was called with the rest as its argument.
\<close>

lemma get_sub_handler_missing_reports_suffix:
  assumes "\<not> startswith a ''_''" and "py_getattr self a = Some h"
    and "\<not> py_hasattr h ''protected''" and "kind h = Handler"
    and "\<not> startswith b ''_''" and "py_getattr h b = None"
  shows "get dec self (InList [SStr a, SStr b]) = Inl (NoSuchCommandError [SStr b])"
  using assms by simp

text \<open>Claim C1 at \<open>admin.kick\<close>, where \<open>admin\<close> is a sub-handler without \<open>kick\<close>: the
  error is raised by the sub-handler's own \<open>get\<close>, which was given the rest of the path,
  and carries \<open>kick\<close> alone, not the path \<open>admin.kick\<close> of the caller.\<close>

theorem get_delegated_error_reports_suffix:
  "get dec example_root (InStr ''admin.kick'') = Inl (NoSuchCommandError [SStr ''kick''])
   \<and> split_input (InStr ''admin.kick'') = [SStr ''admin'', SStr ''kick'']"
  by (simp add: example_defs)

subsection \<open>Visible commands\<close>

lemma map_filter_member:
  "x \<in> set xs \<Longrightarrow> g x = Some y \<Longrightarrow> y \<in> set (List.map_filter g xs)"
  by (induction xs) (auto split: option.splits)

lemma map_filter_origin:
  "y \<in> set (List.map_filter g xs) \<Longrightarrow> \<exists>x \<in> set xs. g x = Some y"
  by (induction xs) (auto split: option.splits)

lemma getmembers_member:
  assumes g: "py_getattr object key = Some v" and p: "predicate v"
  shows "(key, v) \<in> set (getmembers object predicate)"
proof -
  from g have "key \<in> fst ` set (attrs object)"
    by (auto simp add: py_getattr_def dest: map_of_SomeD intro: rev_image_eqI)
  then have "key \<in> set (sort (remdups (map fst (attrs object))))" by simp
  then show ?thesis
    unfolding getmembers_def by (rule map_filter_member) (simp add: g p)
qed

lemma getmembers_sound:
  assumes "(key, v) \<in> set (getmembers object predicate)"
  shows "py_getattr object key = Some v \<and> predicate v"
proof -
  from assms obtain k where
    "(case py_getattr object k of None \<Rightarrow> None
      | Some w \<Rightarrow> if predicate w then Some (k, w) else None) = Some (key, v)"
    unfolding getmembers_def by (blast dest: map_filter_origin)
  then show ?thesis by (auto split: option.splits if_splits)
qed

text \<open>
  Without an argument, \<open>getattr\<close> is applied to Python's \<open>None\<close>, which has no
  attribute whose name does not start with an underscore: the first such member ends the
  comprehension with AttributeError.
\<close>

lemma visible_None_raises:
  "(m, v) \<in> set members \<Longrightarrow> \<not> startswith m ''_'' \<Longrightarrow> visible None members = Inl AttributeError"
proof (induction members)
  case Nil
  then show ?case by simp
next
  case (Cons a members)
  obtain m' v' where a: "a = (m', v')" by (cases a)
  have none: "\<And>k. \<not> startswith k ''_'' \<Longrightarrow> k \<notin> set NoneType_dir"
    by (auto simp add: NoneType_dir_def startswith_def)
  show ?case
  proof (cases "startswith m' ''_''")
    case True
    with Cons a show ?thesis by auto
  next
    case False
    with a none [OF False] show ?thesis by simp
  qed
qed

text \<open>
  Every handler inherits the method \<open>get\<close> of \<open>CommandHandler\<close>, so the call without
  an argument raises on every \<open>DefaultBotCommandHandler\<close>.
\<close>

lemma getVisibleCommands_no_argument_raises:
  assumes "py_getattr self ''get'' = Some g" and "test g"
  shows "getVisibleCommands self None = Inl AttributeError"
proof -
  from assms have "(''get'', g) \<in> set (getmembers self test)" by (rule getmembers_member)
  moreover have "\<not> startswith ''get'' ''_''" by (simp add: startswith_def)
  ultimately show ?thesis
    by (simp add: getVisibleCommands_def visible_None_raises)
qed

text \<open>
  With the node given as the argument, the result is the list of the claim: the
  members that are handlers, methods or functions, without the underscore names and the
  protected ones.
\<close>

lemma visible_given_object:
  "(\<And>m v. (m, v) \<in> set members \<Longrightarrow> py_getattr obj m = Some v)
   \<Longrightarrow> visible (Some obj) members
       = Inr (map fst (filter (\<lambda>(m, v). \<not> startswith m ''_'' \<and> \<not> py_hasattr v ''protected'')
                         members))"
proof (induction members)
  case Nil
  then show ?case by simp
next
  case (Cons a members)
  obtain m v where a: "a = (m, v)" by (cases a)
  from Cons.prems [of m v] a have g: "py_getattr obj m = Some v" by simp
  from Cons.prems have "\<And>m v. (m, v) \<in> set members \<Longrightarrow> py_getattr obj m = Some v" by simp
  from Cons.IH [OF this] a g show ?case by simp
qed

lemma getVisibleCommands_given_object:
  "getVisibleCommands self (Some obj)
     = Inr (map fst (filter (\<lambda>(m, v). \<not> startswith m ''_'' \<and> \<not> py_hasattr v ''protected'')
                       (getmembers obj test)))"
  unfolding getVisibleCommands_def
  by (simp add: visible_given_object getmembers_sound)

lemma getVisibleCommands_of_example_root:
  "getVisibleCommands example_root (Some example_root) = Inr [''admin'', ''boom'', ''help'']"
  by code_simp

text \<open>Claim C2 at the node \<open>example_root\<close>: called without an argument,
  \<open>getVisibleCommands\<close> does not return the list \<open>admin\<close>, \<open>boom\<close>, \<open>help\<close> of the
  visible members; it raises AttributeError.\<close>

theorem getVisibleCommands_default_raises:
  "getVisibleCommands example_root None = Inl AttributeError"
  by code_simp

subsection \<open>Execution\<close>

text \<open>Claim C3, as stated, fails in four ways. A \<open>ProtectedCommandError\<close> of the
  resolution passes through \<open>run\<close> as it is, and so does the \<open>UnboundLocalError\<close> on the
  empty path; an exception of the body that is not derived from \<open>Exception\<close> is not
  caught; and when the log line of the handler cannot format the exception of the body,
  the error of the formatting escapes in place of the \<open>CommandError\<close>.\<close>

theorem run_failures_not_wrapped:
  "run ascii_decode (\<lambda>f. None) (\<lambda>e. None) example_invoke example_root
       (InStr ''protected_operation'') [''al!u@h'', ''#chan'']
     = ([], Inl (ProtectedCommandError [SStr ''protected_operation'']))
   \<and> run ascii_decode (\<lambda>f. None) (\<lambda>e. None) example_invoke example_root
       (InList []) [''al!u@h'', ''#chan'']
     = ([], Inl UnboundLocalError)
   \<and> run ascii_decode (\<lambda>f. None) (\<lambda>e. None) (\<lambda>f args. ([], Inl (BaseOnly ''CancelledError'')))
       example_root (InStr ''help'') [''al!u@h'', ''#chan'']
     = ([Called (Obj ''help'' Method []) [''al!u@h'', ''#chan'']],
        Inl (BaseOnly ''CancelledError''))
   \<and> run ascii_decode (\<lambda>f. None) (\<lambda>e. Some (OtherException ''TypeError'')) example_invoke
       example_root (InStr ''boom'') [''al!u@h'', ''#chan'']
     = ([Called (Obj ''boom'' Method []) [''al!u@h'', ''#chan''], Effect ''boom''],
        Inl (OtherException ''TypeError''))"
  by (simp add: run_def example_invoke_def example_defs)

text \<open>
  An exception of either log line escapes \<open>run\<close>: that of \<open>'f %s' % f\<close> before the
  command is called, that of \<open>'command raised %s' % e\<close> after the body has raised.
\<close>

lemma run_log_line_raises:
  "get dec self command = Inr f \<Longrightarrow> log_f f = Some e'
   \<Longrightarrow> run dec log_f log_e invoke self command args = ([], Inl e')"
  "get dec self command = Inr f \<Longrightarrow> log_f f = None \<Longrightarrow> invoke f args = (evs, Inl e)
   \<Longrightarrow> is_Exception e \<Longrightarrow> log_e e = Some e'
   \<Longrightarrow> run dec log_f log_e invoke self command args = (Called f args # evs, Inl e')"
  by (simp_all add: run_def)

text \<open>Claim C3, amended: for every invocation of \<open>run\<close>, a failure of the resolution
  other than \<open>NoSuchCommandError\<close> (a \<open>ProtectedCommandError\<close> included) is not wrapped
  and reaches the caller as \<open>get\<close> raised it, with no command called; an exception
  derived from \<open>Exception\<close> that the call of the resolved command raises is replaced by
  one \<open>CommandError\<close> carrying the command \<open>run\<close> was given, which reaches the caller,
  provided the two log lines format their values; an exception of the body that is not
  derived from \<open>Exception\<close> reaches the caller unchanged.\<close>

theorem run_failure_handling:
  "(get dec self command = Inl e0 \<and> \<not> is_NoSuchCommandError e0
      \<longrightarrow> run dec log_f log_e invoke self command args = ([], Inl e0))
   \<and> (get dec self command = Inr f \<and> log_f f = None \<and> invoke f args = (evs, Inl e)
        \<and> is_Exception e \<and> log_e e = None
      \<longrightarrow> run dec log_f log_e invoke self command args
            = (Called f args # evs, Inl (CommandError command)))
   \<and> (get dec self command = Inr f \<and> log_f f = None \<and> invoke f args = (evs, Inl e)
        \<and> \<not> is_Exception e
      \<longrightarrow> run dec log_f log_e invoke self command args = (Called f args # evs, Inl e))"
proof (intro conjI impI)
  assume "get dec self command = Inl e0 \<and> \<not> is_NoSuchCommandError e0"
  then show "run dec log_f log_e invoke self command args = ([], Inl e0)"
    by (cases e0) (simp_all add: run_def)
next
  assume "get dec self command = Inr f \<and> log_f f = None \<and> invoke f args = (evs, Inl e)
          \<and> is_Exception e \<and> log_e e = None"
  then show "run dec log_f log_e invoke self command args
               = (Called f args # evs, Inl (CommandError command))"
    by (simp add: run_def)
next
  assume "get dec self command = Inr f \<and> log_f f = None \<and> invoke f args = (evs, Inl e)
          \<and> \<not> is_Exception e"
  then show "run dec log_f log_e invoke self command args = (Called f args # evs, Inl e)"
    by (simp add: run_def)
qed

theorem run_failure_handling_witness:
  "run ascii_decode (\<lambda>f. None) (\<lambda>e. None) example_invoke example_root (InStr ''get'') []
     = ([], Inl (ProtectedCommandError [SStr ''get'']))
   \<and> run ascii_decode (\<lambda>f. None) (\<lambda>e. None) example_invoke example_root (InStr ''boom'')
         [''al!u@h'', ''#chan'']
     = ([Called (Obj ''boom'' Method []) [''al!u@h'', ''#chan''], Effect ''boom''],
        Inl (CommandError (InStr ''boom'')))
   \<and> run ascii_decode (\<lambda>f. None) (\<lambda>e. None) (\<lambda>f args. ([], Inl (BaseOnly ''CancelledError'')))
         example_root (InStr ''help'') [''al!u@h'', ''#chan'']
     = ([Called (Obj ''help'' Method []) [''al!u@h'', ''#chan'']],
        Inl (BaseOnly ''CancelledError''))"
proof -
  have p: "get ascii_decode example_root (InStr ''get'')
             = Inl (ProtectedCommandError [SStr ''get''])
           \<and> \<not> is_NoSuchCommandError (ProtectedCommandError [SStr ''get''])"
    by (simp add: example_defs)
  have b: "get ascii_decode example_root (InStr ''boom'') = Inr (Obj ''boom'' Method [])
           \<and> (\<lambda>f. None) (Obj ''boom'' Method []) = (None :: exc option)
           \<and> example_invoke (Obj ''boom'' Method []) [''al!u@h'', ''#chan'']
               = ([Effect ''boom''], Inl (OtherException ''ValueError''))
           \<and> is_Exception (OtherException ''ValueError'')
           \<and> (\<lambda>e. None) (OtherException ''ValueError'') = (None :: exc option)"
    by (simp add: example_invoke_def example_defs)
  have c: "get ascii_decode example_root (InStr ''help'') = Inr (Obj ''help'' Method [])
           \<and> (\<lambda>f. None) (Obj ''help'' Method []) = (None :: exc option)
           \<and> (\<lambda>f args. ([], Inl (BaseOnly ''CancelledError''))) (Obj ''help'' Method [])
                 [''al!u@h'', ''#chan'']
               = (([] :: event list), (Inl (BaseOnly ''CancelledError'') :: exc + unit))
           \<and> \<not> is_Exception (BaseOnly ''CancelledError'')"
    by (simp add: example_defs)
  have 1: "run ascii_decode (\<lambda>f. None) (\<lambda>e. None) example_invoke example_root (InStr ''get'') []
             = ([], Inl (ProtectedCommandError [SStr ''get'']))"
    using p run_failure_handling [where dec = ascii_decode and self = example_root
        and command = "InStr ''get''" and ?e0.0 = "ProtectedCommandError [SStr ''get'']"
        and log_f = "\<lambda>f. None" and log_e = "\<lambda>e. None" and invoke = example_invoke
        and args = "[]"]
    by blast
  have 2: "run ascii_decode (\<lambda>f. None) (\<lambda>e. None) example_invoke example_root (InStr ''boom'')
               [''al!u@h'', ''#chan'']
             = ([Called (Obj ''boom'' Method []) [''al!u@h'', ''#chan''], Effect ''boom''],
                Inl (CommandError (InStr ''boom'')))"
    using b run_failure_handling [where dec = ascii_decode and self = example_root
        and command = "InStr ''boom''" and f = "Obj ''boom'' Method []"
        and log_f = "\<lambda>f. None" and log_e = "\<lambda>e. None" and invoke = example_invoke
        and args = "[''al!u@h'', ''#chan'']" and evs = "[Effect ''boom'']"
        and e = "OtherException ''ValueError''"]
    by simp
  have 3: "run ascii_decode (\<lambda>f. None) (\<lambda>e. None)
               (\<lambda>f args. ([], Inl (BaseOnly ''CancelledError'')))
               example_root (InStr ''help'') [''al!u@h'', ''#chan'']
             = ([Called (Obj ''help'' Method []) [''al!u@h'', ''#chan'']],
                Inl (BaseOnly ''CancelledError''))"
    using c run_failure_handling [where dec = ascii_decode and self = example_root
        and command = "InStr ''help''" and f = "Obj ''help'' Method []"
        and log_f = "\<lambda>f. None" and log_e = "\<lambda>e. None"
        and invoke = "\<lambda>f args. ([], Inl (BaseOnly ''CancelledError''))"
        and args = "[''al!u@h'', ''#chan'']" and evs = "[]"
        and e = "BaseOnly ''CancelledError''"]
    by simp
  from 1 2 3 show ?thesis by simp
qed

text \<open>Claim C4: when the resolution of the command fails with \<open>NoSuchCommandError\<close>,
  \<open>run\<close> calls \<open>__unhandled__\<close> with the same command and arguments, does nothing
  else and returns; no error reaches the caller.\<close>

theorem run_falls_back_on_NoSuchCommand:
  "get dec self command = Inl (NoSuchCommandError parts)
   \<Longrightarrow> run dec log_f log_e invoke self command args = ([Unhandled command args], Inr ())"
  by (simp add: run_def unhandled_def)

theorem run_falls_back_on_NoSuchCommand_witness:
  "get ascii_decode example_root (InStr ''nosuch'') = Inl (NoSuchCommandError [SStr ''nosuch''])
   \<and> run ascii_decode (\<lambda>f. None) (\<lambda>e. None) example_invoke example_root (InStr ''nosuch'')
         [''al!u@h'', ''#chan'']
       = ([Unhandled (InStr ''nosuch'') [''al!u@h'', ''#chan'']], Inr ())"
proof -
  have g: "get ascii_decode example_root (InStr ''nosuch'')
             = Inl (NoSuchCommandError [SStr ''nosuch''])"
    by (simp add: example_defs)
  from g run_falls_back_on_NoSuchCommand [OF g, of "\<lambda>f. None" "\<lambda>e. None" example_invoke
      "[''al!u@h'', ''#chan'']"]
  show ?thesis by simp
qed

subsection \<open>Routing\<close>

text \<open>Claim C8: a message whose destination is not the client's nick and whose text
  does not start with the client's nick makes \<open>tryBotCommand\<close> return \<open>False\<close> with
  nothing done: no resolution, no call, no message.\<close>

theorem tryBotCommand_not_addressed:
  "dest \<noteq> nick (client self) \<Longrightarrow> \<not> startswith msg (nick (client self))
   \<Longrightarrow> tryBotCommand dec log_f log_e invoke parse_nick0 str_of self prefix dest msg
       = ([], Inr False)"
  by (simp add: tryBotCommand_def)

theorem tryBotCommand_not_addressed_witness:
  "''#chan'' \<noteq> nick (client example_bot)
   \<and> \<not> startswith ''hello bot'' (nick (client example_bot))
   \<and> tryBotCommand ascii_decode (\<lambda>f. None) (\<lambda>e. None) example_invoke
        (takeWhile (\<lambda>c. c \<noteq> CHR ''!'')) (\<lambda>e. ''Command failed'') example_bot
        ''al!u@h'' ''#chan'' ''hello bot''
      = ([], Inr False)"
proof -
  have a: "''#chan'' \<noteq> nick (client example_bot)" by (simp add: example_bot_def)
  have b: "\<not> startswith ''hello bot'' (nick (client example_bot))"
    by (simp add: example_bot_def startswith_def)
  from a b tryBotCommand_not_addressed [OF a b] show ?thesis by simp
qed

text \<open>Claim C7: for a message recognised as a bot command (sent to the client's nick,
  or with a text that starts with it), when \<open>run\<close> raises a \<open>CommandError\<close>,
  \<open>tryBotCommand\<close> sends the text of the error to the reply destination through
  \<open>helpers.msg\<close> after what \<open>run\<close> did, raises nothing and returns \<open>True\<close>.\<close>

theorem tryBotCommand_reports_CommandError:
  assumes "dest = nick (client self) \<or> startswith msg (nick (client self))"
    and "reply = (if dest = nick (client self) then parse_nick0 prefix else dest)"
    and "split_once CHR '' ''
           (strip (if dest = nick (client self) then msg
                   else drop (length (nick (client self)) + 1) msg)) = command # arg"
    and "run dec log_f log_e invoke (command_handler self) (InStr command)
             (prefix # reply # arg)
           = (evs, Inl (CommandError c))"
  shows "tryBotCommand dec log_f log_e invoke parse_nick0 str_of self prefix dest msg
           = (evs @ [Msg reply (str_of (CommandError c))], Inr True)"
  using assms by (auto simp add: tryBotCommand_def helpers_msg_def)

theorem tryBotCommand_reports_CommandError_witness:
  "tryBotCommand ascii_decode (\<lambda>f. None) (\<lambda>e. None) example_invoke
        (takeWhile (\<lambda>c. c \<noteq> CHR ''!'')) (\<lambda>e. ''Command failed'') example_bot
        ''al!u@h'' ''#chan'' ''bot: boom now''
   = ([Called (Obj ''boom'' Method []) [''al!u@h'', ''#chan'', ''now''], Effect ''boom'',
       Msg ''#chan'' ''Command failed''], Inr True)"
proof -
  have a: "''#chan'' = nick (client example_bot)
           \<or> startswith ''bot: boom now'' (nick (client example_bot))"
    by (simp add: example_bot_def startswith_def)
  have b: "''#chan'' = (if ''#chan'' = nick (client example_bot)
                        then takeWhile (\<lambda>c. c \<noteq> CHR ''!'') ''al!u@h'' else ''#chan'')"
    by (simp add: example_bot_def)
  have c: "split_once CHR '' ''
           (strip (if ''#chan'' = nick (client example_bot) then ''bot: boom now''
                   else drop (length (nick (client example_bot)) + 1) ''bot: boom now''))
           = ''boom'' # [''now'']"
    by (simp add: example_bot_def strip_def isspace_def)
  have d: "run ascii_decode (\<lambda>f. None) (\<lambda>e. None) example_invoke
             (command_handler example_bot) (InStr ''boom'')
             (''al!u@h'' # ''#chan'' # [''now''])
           = ([Called (Obj ''boom'' Method []) [''al!u@h'', ''#chan'', ''now''], Effect ''boom''],
              Inl (CommandError (InStr ''boom'')))"
    by (simp add: example_bot_def run_def example_invoke_def example_defs)
  from a b c d show ?thesis
    by (simp only: tryBotCommand_reports_CommandError
          [where dest = "''#chan''" and self = example_bot and msg = "''bot: boom now''"
             and reply = "''#chan''" and ?parse_nick0.0 = "takeWhile (\<lambda>c. c \<noteq> CHR ''!'')"
             and prefix = "''al!u@h''" and command = "''boom''" and arg = "[''now'']"
             and dec = ascii_decode and log_f = "\<lambda>f. None" and log_e = "\<lambda>e. None"
             and invoke = example_invoke
             and evs = "[Called (Obj ''boom'' Method []) [''al!u@h'', ''#chan'', ''now''],
                         Effect ''boom'']"
             and c = "InStr ''boom''" and str_of = "\<lambda>e. ''Command failed''"] append.simps)
qed

text \<open>Claim C10: with the nick \<open>bot\<close>, the channel message \<open>botsrule now\<close> starts with
  the nick as a mere prefix of a word; \<open>tryBotCommand\<close> drops \<open>len(nick) + 1\<close>
  characters, which leaves \<open>rule now\<close>, dispatches \<open>rule\<close> as the command with the
  argument \<open>now\<close>, and returns \<open>True\<close>.\<close>

theorem tryBotCommand_prefix_without_delimiter:
  "drop (length (nick (client example_bot)) + 1) ''botsrule now'' = ''rule now''
   \<and> tryBotCommand dec log_f log_e invoke parse_nick0 str_of example_bot
         ''al!u@h'' ''#chan'' ''botsrule now''
     = (fst (run dec log_f log_e invoke example_root (InStr ''rule'')
               [''al!u@h'', ''#chan'', ''now'']),
        Inr True)
   \<and> run dec log_f log_e invoke example_root (InStr ''rule'') [''al!u@h'', ''#chan'', ''now'']
     = ([Unhandled (InStr ''rule'') [''al!u@h'', ''#chan'', ''now'']], Inr ())"
  by (simp add: tryBotCommand_def example_bot_def strip_def isspace_def run_def unhandled_def
        example_defs)

end
